theory Spec2Isabelle
  imports Main "HOL-Library.Sublist"
begin

section \<open>The conversation store of the Spanish tutor bot\<close>

text \<open>
  The development embeds \<^verbatim>\<open>spanish_tutor.py\<close>: the class \<^verbatim>\<open>ConversationManager\<close>,
  the helper \<^verbatim>\<open>generate_gemini_response\<close> and the text handler \<^verbatim>\<open>handle_text\<close>.

  Conventions of the embedding.
  \<^item> A Python \<^verbatim>\<open>str\<close> is a \<^typ>\<open>string\<close> holding its UTF-8 bytes, so that concatenation and
    equality of texts are concatenation and equality of lists.
  \<^item> A \<^verbatim>\<open>datetime\<close> is an \<^typ>\<open>int\<close>, the number of microseconds since a fixed origin (the
    resolution of \<^verbatim>\<open>datetime\<close>); a \<^verbatim>\<open>timedelta\<close> is an \<^typ>\<open>int\<close> number of microseconds.
    Both are taken inside the range the Python types can hold.
  \<^item> Every \<^verbatim>\<open>datetime.now()\<close> of the source is a separate reading of the clock and is a
    separate argument of the function that performs it, named in the order of reading.
  \<^item> The \<^verbatim>\<open>defaultdict(list)\<close> is a map from user identifiers to lists; a key is known
    exactly when the map is defined there.
  \<^item> A method that mutates \<^verbatim>\<open>self\<close> returns the new manager.
\<close>

subsection \<open>Data\<close>

text \<open>
  What \<^verbatim>\<open>get_history\<close> hands out: \<^verbatim>\<open>{'role': ..., 'content': ...}\<close>. A stored message is the
  same with one more field, \<^verbatim>\<open>'timestamp'\<close>.
\<close>

record entry =
  role :: string
  content :: string

record msg = entry +
  timestamp :: int

record 'u ConversationManager =
  conversations :: "'u \<rightharpoonup> msg list"
  expiry_minutes :: int

text \<open>\<^verbatim>\<open>ConversationManager(expiry_minutes=30)\<close>: an empty \<^verbatim>\<open>defaultdict(list)\<close>.\<close>

definition init :: "int \<Rightarrow> 'u ConversationManager" where
  "init m = \<lparr>conversations = Map.empty, expiry_minutes = m\<rparr>"

definition conversation_manager :: "'u ConversationManager" where
  "conversation_manager = init 30"

text \<open>\<^verbatim>\<open>timedelta(minutes=m)\<close> in microseconds.\<close>

definition timedelta_minutes :: "int \<Rightarrow> int" where
  "timedelta_minutes m = m * 60000000"

subsection \<open>The default dictionary\<close>

text \<open>
  \<^verbatim>\<open>self.conversations[user_id]\<close> as an expression: a missing key is created with the value
  \<^verbatim>\<open>[]\<close>, which is returned. The result is the value and the manager after the access.
\<close>

definition getitem :: "'u ConversationManager \<Rightarrow> 'u \<Rightarrow> msg list \<times> 'u ConversationManager" where
  "getitem cm user_id =
     (case conversations cm user_id of
        Some msgs \<Rightarrow> (msgs, cm)
      | None \<Rightarrow> ([], cm\<lparr>conversations := (conversations cm)(user_id \<mapsto> [])\<rparr>))"

text \<open>\<^verbatim>\<open>self.conversations[user_id] = msgs\<close>.\<close>

definition setitem :: "'u ConversationManager \<Rightarrow> 'u \<Rightarrow> msg list \<Rightarrow> 'u ConversationManager" where
  "setitem cm user_id msgs = cm\<lparr>conversations := (conversations cm)(user_id \<mapsto> msgs)\<rparr>"

subsection \<open>The methods of \<^verbatim>\<open>ConversationManager\<close>\<close>

text \<open>
  The test of the list comprehension in \<^verbatim>\<open>_clean_expired\<close>:
  \<^verbatim>\<open>current_time - msg['timestamp'] < timedelta(minutes=self.expiry_minutes)\<close>.
\<close>

definition unexpired :: "int \<Rightarrow> int \<Rightarrow> msg \<Rightarrow> bool" where
  "unexpired minutes current_time m \<longleftrightarrow>
     current_time - timestamp m < timedelta_minutes minutes"

text \<open>
  \<^verbatim>\<open>_clean_expired\<close>: every key of the dictionary gets its list filtered; the keys are those
  present when the loop starts, and an assignment to a present key keeps it present.
\<close>

definition clean_expired :: "int \<Rightarrow> 'u ConversationManager \<Rightarrow> 'u ConversationManager" where
  "clean_expired current_time cm =
     cm\<lparr>conversations :=
          (\<lambda>user_id. map_option (filter (unexpired (expiry_minutes cm) current_time))
                                 (conversations cm user_id))\<rparr>"

text \<open>
  \<^verbatim>\<open>add_message\<close>: the sweep at the first reading of the clock, then the append of a message
  stamped with the second reading. The append goes through the default dictionary.
\<close>

definition add_message ::
  "int \<Rightarrow> int \<Rightarrow> 'u ConversationManager \<Rightarrow> 'u \<Rightarrow> string \<Rightarrow> string \<Rightarrow> 'u ConversationManager" where
  "add_message t_sweep t_stamp cm user_id r c =
     (let cm1 = clean_expired t_sweep cm;
          (msgs, cm2) = getitem cm1 user_id
      in setitem cm2 user_id (msgs @ [\<lparr>role = r, content = c, timestamp = t_stamp\<rparr>]))"

text \<open>\<^verbatim>\<open>get_history\<close>: the list read through the default dictionary, without the timestamps.\<close>

definition strip :: "msg \<Rightarrow> entry" where
  "strip m = \<lparr>role = role m, content = content m\<rparr>"

definition get_history :: "'u ConversationManager \<Rightarrow> 'u \<Rightarrow> entry list \<times> 'u ConversationManager" where
  "get_history cm user_id = (let (msgs, cm1) = getitem cm user_id in (map strip msgs, cm1))"

text \<open>\<^verbatim>\<open>clear_history\<close>: \<^verbatim>\<open>del\<close> of a present key, nothing for an absent one.\<close>

definition clear_history :: "'u ConversationManager \<Rightarrow> 'u \<Rightarrow> 'u ConversationManager" where
  "clear_history cm user_id =
     (if user_id \<in> dom (conversations cm)
      then cm\<lparr>conversations := (conversations cm)(user_id := None)\<rparr>
      else cm)"

subsection \<open>Sequences of calls\<close>

text \<open>
  A client of the store calls its four methods in some order. \<^verbatim>\<open>AddMessage\<close> carries the two
  readings of the clock that \<^verbatim>\<open>add_message\<close> makes, \<^verbatim>\<open>CleanExpired\<close> the one reading of
  \<^verbatim>\<open>_clean_expired\<close>.
\<close>

datatype 'u call =
    AddMessage int int 'u string string
  | GetHistory 'u
  | ClearHistory 'u
  | CleanExpired int

fun step :: "'u ConversationManager \<Rightarrow> 'u call \<Rightarrow> 'u ConversationManager" where
  "step cm (AddMessage t_sweep t_stamp user_id r c) = add_message t_sweep t_stamp cm user_id r c"
| "step cm (GetHistory user_id) = snd (get_history cm user_id)"
| "step cm (ClearHistory user_id) = clear_history cm user_id"
| "step cm (CleanExpired current_time) = clean_expired current_time cm"

definition run :: "'u ConversationManager \<Rightarrow> 'u call list \<Rightarrow> 'u ConversationManager" where
  "run cm calls = foldl step cm calls"

text \<open>The stored list of a user, \<^verbatim>\<open>[]\<close> for an unknown one, read without touching the store.\<close>

definition stored :: "'u ConversationManager \<Rightarrow> 'u \<Rightarrow> msg list" where
  "stored cm user_id = (case conversations cm user_id of Some msgs \<Rightarrow> msgs | None \<Rightarrow> [])"

text \<open>
  Three notions the properties of call sequences are stated with. \<^verbatim>\<open>is_add_for u\<close> holds of an
  \<^verbatim>\<open>add_message\<close> call for the user \<^verbatim>\<open>u\<close>. \<^verbatim>\<open>within_window\<close> holds of a sequence of
  \<^verbatim>\<open>add_message\<close> calls in which every sweep finds every earlier stamp younger than the expiry
  window (the second argument collects the stamps given so far). \<^verbatim>\<open>turns_added u\<close> lists what
  the calls added for \<^verbatim>\<open>u\<close>, as role and content, in the order of the calls.
\<close>

fun is_add_for :: "'u \<Rightarrow> 'u call \<Rightarrow> bool" where
  "is_add_for u (AddMessage t_sweep t_stamp v r c) = (v = u)"
| "is_add_for u (GetHistory v) = False"
| "is_add_for u (ClearHistory v) = False"
| "is_add_for u (CleanExpired t) = False"

fun within_window :: "int \<Rightarrow> int list \<Rightarrow> 'u call list \<Rightarrow> bool" where
  "within_window minutes stamps [] = True"
| "within_window minutes stamps (AddMessage t_sweep t_stamp v r c # calls) =
     ((\<forall>t \<in> set stamps. t_sweep - t < timedelta_minutes minutes) \<and>
      within_window minutes (t_stamp # stamps) calls)"
| "within_window minutes stamps (GetHistory v # calls) = False"
| "within_window minutes stamps (ClearHistory v # calls) = False"
| "within_window minutes stamps (CleanExpired t # calls) = False"

fun turns_added :: "'u \<Rightarrow> 'u call list \<Rightarrow> entry list" where
  "turns_added u [] = []"
| "turns_added u (AddMessage t_sweep t_stamp v r c # calls) =
     (if v = u then \<lparr>role = r, content = c\<rparr> # turns_added u calls else turns_added u calls)"
| "turns_added u (GetHistory v # calls) = turns_added u calls"
| "turns_added u (ClearHistory v # calls) = turns_added u calls"
| "turns_added u (CleanExpired t # calls) = turns_added u calls"

subsection \<open>The response helper\<close>

text \<open>
  An exception is the value of \<^verbatim>\<open>str(e)\<close>. The generative backend is outside the repository:
  \<^verbatim>\<open>generate_content\<close> takes either one string or the list \<^verbatim>\<open>[full_prompt, file]\<close> and returns
  a response object or raises; the accessor \<^verbatim>\<open>response.text\<close> of that object returns the
  generated text or raises (the source says so itself, in the comment on
  \<^verbatim>\<open>test_response.text\<close>). Both are parameters of the model.
\<close>

datatype exception = Exception string

datatype 'f payload = Prompt string | PromptWithFile string 'f

record ('r, 'f) backend =
  generate_content :: "'f payload \<Rightarrow> exception + 'r"
  response_text :: "'r \<Rightarrow> exception + string"

text \<open>
  The loop \<^verbatim>\<open>for msg in history: ... full_prompt += f"{role}: {msg['content']}\n"\<close>, with
  \<^verbatim>\<open>full_prompt\<close> as the accumulator.
\<close>

fun history_loop :: "string \<Rightarrow> entry list \<Rightarrow> string" where
  "history_loop full_prompt [] = full_prompt"
| "history_loop full_prompt (m # history) =
     history_loop
       (full_prompt @ (if role m = ''user'' then ''User'' else ''Assistant'')
          @ '': '' @ content m @ ''\<newline>'')
       history"

text \<open>
  The argument of \<^verbatim>\<open>generate_content\<close>, as the lines from \<^verbatim>\<open>full_prompt = prompt + ...\<close>
  to the call build it. \<^verbatim>\<open>if file:\<close> is the test for a supplied file (\<^verbatim>\<open>None\<close> is the default).
\<close>

definition request :: "string \<Rightarrow> entry list \<Rightarrow> string \<Rightarrow> 'f option \<Rightarrow> 'f payload" where
  "request prompt history input_content file =
     (let full_prompt =
            history_loop (prompt @ ''\<newline>\<newline>Conversation history:\<newline>'') history
      in case file of
           Some f \<Rightarrow> PromptWithFile full_prompt f
         | None \<Rightarrow> Prompt (full_prompt @ ''\<newline>User: '' @ input_content))"

text \<open>
  \<^verbatim>\<open>generate_gemini_response\<close>. The context manager and \<^verbatim>\<open>gc.collect()\<close> leave the store alone
  and are omitted; constructing the model handle is taken to succeed. The four readings of the
  clock are those of the two \<^verbatim>\<open>add_message\<close> calls. \<^verbatim>\<open>response.text\<close> is read first as the
  argument of the second \<^verbatim>\<open>add_message\<close>, after the first \<^verbatim>\<open>add_message\<close> has run, and again
  for \<^verbatim>\<open>return\<close>.
\<close>

definition generate_gemini_response ::
  "int \<Rightarrow> int \<Rightarrow> int \<Rightarrow> int \<Rightarrow> ('r, 'f) backend \<Rightarrow> 'u ConversationManager \<Rightarrow>
   string \<Rightarrow> 'u \<Rightarrow> string \<Rightarrow> 'f option \<Rightarrow> (exception + string) \<times> 'u ConversationManager" where
  "generate_gemini_response t1 t2 t3 t4 model cm prompt user_id input_content file =
     (let (history, cm1) = get_history cm user_id
      in case generate_content model (request prompt history input_content file) of
           Inl e \<Rightarrow> (Inl e, cm1)
         | Inr response \<Rightarrow>
             (let cm2 = add_message t1 t2 cm1 user_id ''user'' input_content
              in case response_text model response of
                   Inl e \<Rightarrow> (Inl e, cm2)
                 | Inr generated \<Rightarrow>
                     (let cm3 = add_message t3 t4 cm2 user_id ''assistant'' generated
                      in (response_text model response, cm3))))"





subsection \<open>The text handler\<close>

text \<open>
  \<^verbatim>\<open>str.lower()\<close> on the bytes of a text: an ASCII capital becomes the small letter, every other
  byte stays. (Python lowers characters beyond ASCII too; none of them becomes a character of
  \<^verbatim>\<open>"clear history"\<close>, the only text the result is compared with.)
\<close>

definition lower_char :: "char \<Rightarrow> char" where
  "lower_char c =
     (let n = of_char c :: nat in if 65 \<le> n \<and> n \<le> 90 then char_of (n + 32) else c)"

definition lower :: "string \<Rightarrow> string" where
  "lower s = map lower_char s"

text \<open>
  The chat transport keeps what the bot sent: \<^verbatim>\<open>bot.reply_to(message, text)\<close> and
  \<^verbatim>\<open>bot.send_voice(chat_id, audio)\<close>; sending is taken to succeed. \<^verbatim>\<open>synthesize_speech\<close> calls
  the speech backend and is a parameter: it returns the audio or raises.
\<close>

datatype 'a sent = Reply string | Voice 'a

record 'u message =
  message_text :: string
  from_user_id :: 'u

record ('u, 'a) world =
  manager :: "'u ConversationManager"
  outbox :: "'a sent list"

definition GEMINI_PROMPT :: string where
  "GEMINI_PROMPT =
     ''Your role is to help them practice and learn Spanish. \<newline>'' @
     ''Listen to their audio messages and respond naturally to what they say. ALWAYS respond in SPANISH!!!\<newline>'' @
     ''Keep in mind that they will make mistakes. Avoid starting with generic greetings or phrases like '' @
     [CHR 0x22, CHR 0xC2, CHR 0xA1] @ ''Hola!'' @ [CHR 0x22] @ '', '' @
     [CHR 0x22, CHR 0xC2, CHR 0xA1] @ ''Qu'' @ [CHR 0xC3, CHR 0xA9] @ '' interesante!'' @ [CHR 0x22] @ '', '' @
     [CHR 0x22, CHR 0xC2, CHR 0xA1] @ ''Excelente pregunta!'' @ [CHR 0x22] @ '', etc. \<newline>'' @
     ''\<newline>'' @
     ''Provide detailed, informative responses that:\<newline>'' @
     ''- Include at least 3-4 complete sentences\<newline>'' @
     ''- Explain concepts thoroughly\<newline>'' @
     ''- Give examples when relevant\<newline>'' @
     ''- Include cultural context when appropriate\<newline>'' @
     ''- Never exceed 2000 characters\<newline>'' @
     ''- Always end with an engaging follow-up question\<newline>'' @
     ''\<newline>'' @
     ''Instead of just answering directly, expand on the topic and provide rich context.''"

definition acknowledgement :: string where
  "acknowledgement =
     [CHR 0xC2, CHR 0xA1] @ ''Historial de conversaci'' @ [CHR 0xC3, CHR 0xB3] @
     ''n borrado! Empecemos de nuevo.''"

text \<open>
  \<^verbatim>\<open>handle_text\<close>. The \<^verbatim>\<open>except Exception as e\<close> clause replies with the text of the exception.
\<close>

definition handle_text ::
  "int \<Rightarrow> int \<Rightarrow> int \<Rightarrow> int \<Rightarrow> ('r, 'f) backend \<Rightarrow> (string \<Rightarrow> exception + 'a) \<Rightarrow>
   ('u, 'a) world \<Rightarrow> 'u message \<Rightarrow> ('u, 'a) world" where
  "handle_text t1 t2 t3 t4 model synthesize_speech w message =
     (if lower (message_text message) = ''clear history''
      then w\<lparr>manager := clear_history (manager w) (from_user_id message),
             outbox := outbox w @ [Reply acknowledgement]\<rparr>
      else
        (case generate_gemini_response t1 t2 t3 t4 model (manager w) GEMINI_PROMPT
                (from_user_id message) (message_text message) None of
           (Inl (Exception e), cm) \<Rightarrow>
             w\<lparr>manager := cm,
               outbox := outbox w @
                 [Reply (''Sorry, there was an error processing your message: '' @ e)]\<rparr>
         | (Inr response, cm) \<Rightarrow>
             (case synthesize_speech response of
                Inl (Exception e) \<Rightarrow>
                  w\<lparr>manager := cm,
                    outbox := outbox w @
                      [Reply (''Sorry, there was an error processing your message: '' @ e)]\<rparr>
              | Inr audio \<Rightarrow>
                  w\<lparr>manager := cm, outbox := outbox w @ [Reply response, Voice audio]\<rparr>)))"

subsection \<open>An example store\<close>

text \<open>
  Two users with one turn each, stamped at 0 and at 1 microsecond, and an expiry window of one
  minute. The examples below evaluate the methods on it.
\<close>

definition two_users :: "int ConversationManager" where
  "two_users =
     \<lparr>conversations =
        [1 \<mapsto> [\<lparr>role = ''user'', content = ''Hola'', timestamp = 0\<rparr>],
         2 \<mapsto> [\<lparr>role = ''user'', content = ''Adios'', timestamp = 1\<rparr>]],
      expiry_minutes = 1\<rparr>"


definition answering :: "(unit, unit) backend" where
  "answering = \<lparr>generate_content = (\<lambda>p. Inr ()), response_text = (\<lambda>r. Inr ''Buenas'')\<rparr>"


section \<open>Properties\<close>

subsection \<open>What each method does to the stored lists\<close>

lemma conversations_clean_expired:
  "conversations (clean_expired t cm) u =
     map_option (filter (unexpired (expiry_minutes cm) t)) (conversations cm u)"
  by (simp add: clean_expired_def)

lemma expiry_minutes_clean_expired: "expiry_minutes (clean_expired t cm) = expiry_minutes cm"
  by (simp add: clean_expired_def)

lemma stored_clean_expired:
  "stored (clean_expired t cm) u = filter (unexpired (expiry_minutes cm) t) (stored cm u)"
  by (simp add: stored_def conversations_clean_expired split: option.splits)

lemma fst_getitem: "fst (getitem cm u) = stored cm u"
  by (simp add: getitem_def stored_def split: option.splits)

lemma conversations_snd_getitem:
  "conversations (snd (getitem cm u)) = (conversations cm)(u \<mapsto> stored cm u)"
  by (auto simp: getitem_def stored_def split: option.splits)

lemma expiry_minutes_snd_getitem: "expiry_minutes (snd (getitem cm u)) = expiry_minutes cm"
  by (simp add: getitem_def split: option.splits)

lemma stored_snd_getitem: "stored (snd (getitem cm u)) v = stored cm v"
  by (simp add: getitem_def stored_def split: option.splits)

lemma fst_get_history: "fst (get_history cm u) = map strip (stored cm u)"
  by (simp add: get_history_def fst_getitem split: prod.splits) (metis fst_getitem fst_conv)

lemma snd_get_history: "snd (get_history cm u) = snd (getitem cm u)"
  by (simp add: get_history_def split: prod.splits)

lemma conversations_add_message:
  "conversations (add_message t_sweep t_stamp cm v r c) =
     (conversations (clean_expired t_sweep cm))
       (v \<mapsto> filter (unexpired (expiry_minutes cm) t_sweep) (stored cm v)
               @ [\<lparr>role = r, content = c, timestamp = t_stamp\<rparr>])"
  by (auto simp: add_message_def Let_def setitem_def getitem_def stored_def
        conversations_clean_expired split: option.splits prod.splits)

lemma expiry_minutes_add_message:
  "expiry_minutes (add_message t_sweep t_stamp cm v r c) = expiry_minutes cm"
  by (auto simp: add_message_def Let_def setitem_def getitem_def clean_expired_def
        split: option.splits prod.splits)

lemma stored_add_message:
  "stored (add_message t_sweep t_stamp cm v r c) u =
     filter (unexpired (expiry_minutes cm) t_sweep) (stored cm u)
       @ (if u = v then [\<lparr>role = r, content = c, timestamp = t_stamp\<rparr>] else [])"
  by (simp add: stored_def conversations_add_message conversations_clean_expired
        split: option.splits)

lemma stored_clear_history:
  "stored (clear_history cm u) v = (if v = u then [] else stored cm v)"
  by (auto simp: clear_history_def stored_def split: option.splits)

lemma expiry_minutes_clear_history: "expiry_minutes (clear_history cm u) = expiry_minutes cm"
  by (simp add: clear_history_def)

lemma stored_init: "stored (init m) u = []"
  by (simp add: init_def stored_def)

lemma expiry_minutes_init: "expiry_minutes (init m) = m"
  by (simp add: init_def)

lemma run_Cons: "run cm (c # calls) = run (step cm c) calls"
  by (simp add: run_def)

lemma expiry_minutes_step: "expiry_minutes (step cm c) = expiry_minutes cm"
  by (cases c)
     (simp_all add: expiry_minutes_add_message snd_get_history expiry_minutes_snd_getitem
        expiry_minutes_clear_history expiry_minutes_clean_expired)

subsection \<open>Histories of call sequences\<close>

lemma stored_step_no_add:
  "stored cm u = [] \<Longrightarrow> \<not> is_add_for u c \<Longrightarrow> stored (step cm c) u = []"
  by (cases c)
     (simp_all add: stored_add_message stored_snd_getitem snd_get_history
        stored_clear_history stored_clean_expired)

lemma stored_run_no_add:
  "stored cm u = [] \<Longrightarrow> \<forall>c \<in> set calls. \<not> is_add_for u c \<Longrightarrow> stored (run cm calls) u = []"
  unfolding run_def
  by (induction calls arbitrary: cm) (simp_all add: stored_step_no_add)

text \<open>
  Claim C6. Start from a fresh manager and make any calls, for any users, none of them an
  \<^verbatim>\<open>add_message\<close> for the user \<^verbatim>\<open>u\<close> (reads and clears of \<^verbatim>\<open>u\<close> are allowed). Then
  \<^verbatim>\<open>get_history(u)\<close> returns the empty list. It returns a list in every case: the access goes
  through the default dictionary, which has no failing branch.
\<close>

theorem get_history_unknown_user:
  "\<forall>c \<in> set calls. \<not> is_add_for u c \<Longrightarrow> fst (get_history (run (init m) calls) u) = []"
  by (simp add: fst_get_history stored_run_no_add stored_init)

theorem get_history_unknown_user_witness:
  "fst (get_history
          (run (init 30)
             [AddMessage 0 1 (2::int) ''user'' ''Hola'', GetHistory 1, ClearHistory 1,
              CleanExpired 5])
          1) = []"
  using get_history_unknown_user
    [of "[AddMessage 0 1 (2::int) ''user'' ''Hola'', GetHistory 1, ClearHistory 1,
          CleanExpired 5]" 1 30]
  by simp

lemma within_window_run:
  "within_window (expiry_minutes cm) stamps calls \<Longrightarrow>
   \<forall>v. \<forall>x \<in> set (stored cm v). timestamp x \<in> set stamps \<Longrightarrow>
   map strip (stored (run cm calls) u) = map strip (stored cm u) @ turns_added u calls"
proof (induction calls arbitrary: cm stamps)
  case Nil
  then show ?case by (simp add: run_def)
next
  case (Cons c calls)
  show ?case
  proof (cases c)
    case (AddMessage t_sweep t_stamp v r c')
    let ?cm = "add_message t_sweep t_stamp cm v r c'"
    from Cons.prems AddMessage
    have fresh: "\<forall>t \<in> set stamps. t_sweep - t < timedelta_minutes (expiry_minutes cm)"
      and rest: "within_window (expiry_minutes cm) (t_stamp # stamps) calls"
      by simp_all
    have keep: "filter (unexpired (expiry_minutes cm) t_sweep) (stored cm w) = stored cm w" for w
      using fresh Cons.prems(2) by (auto simp: unexpired_def filter_id_conv)
    have st: "stored ?cm w = stored cm w
                @ (if w = v then [\<lparr>role = r, content = c', timestamp = t_stamp\<rparr>] else [])" for w
      by (simp add: stored_add_message keep)
    have inv: "\<forall>w. \<forall>x \<in> set (stored ?cm w). timestamp x \<in> set (t_stamp # stamps)"
      using Cons.prems(2) by (auto simp: st)
    have "map strip (stored (run ?cm calls) u) = map strip (stored ?cm u) @ turns_added u calls"
      using Cons.IH [of ?cm "t_stamp # stamps"] rest inv
      by (simp add: expiry_minutes_add_message)
    moreover have "map strip (stored ?cm u) @ turns_added u calls =
        map strip (stored cm u) @ turns_added u (c # calls)"
      using AddMessage by (simp add: st strip_def)
    ultimately show ?thesis
      using AddMessage by (simp add: run_Cons)
  qed (use Cons.prems in simp_all)
qed

text \<open>
  Claim C3. Start from a fresh manager and make \<^verbatim>\<open>add_message\<close> calls, for any users, such that
  every sweep finds every stamp given so far younger than the expiry window. Then
  \<^verbatim>\<open>get_history(u)\<close> returns exactly the turns added for \<^verbatim>\<open>u\<close>, in the order of the calls, each
  with the role and the content given to \<^verbatim>\<open>add_message\<close>. What is returned has the type
  \<^typ>\<open>entry\<close>, which has no timestamp. The witness is the scenario of the specification:
  \<^verbatim>\<open>"Hola"\<close> as user, then the reply as assistant, both for \<^verbatim>\<open>"u1"\<close>.
\<close>

theorem get_history_within_window:
  "within_window m [] calls \<Longrightarrow> fst (get_history (run (init m) calls) u) = turns_added u calls"
  using within_window_run [of "init m" "[]" calls u]
  by (simp add: fst_get_history stored_init expiry_minutes_init)

theorem get_history_within_window_witness:
  "within_window 30 []
     [AddMessage 0 1 ''u1'' ''user'' ''Hola'',
      AddMessage 2 3 ''u1'' ''assistant'' ([CHR 0xC2, CHR 0xA1] @ ''Buenas!'')] \<and>
   fst (get_history
          (run (init 30)
             [AddMessage 0 1 ''u1'' ''user'' ''Hola'',
              AddMessage 2 3 ''u1'' ''assistant'' ([CHR 0xC2, CHR 0xA1] @ ''Buenas!'')])
          ''u1'') =
     [\<lparr>role = ''user'', content = ''Hola''\<rparr>,
      \<lparr>role = ''assistant'', content = [CHR 0xC2, CHR 0xA1] @ ''Buenas!''\<rparr>]"
  using get_history_within_window
    [of 30 "[AddMessage 0 1 ''u1'' ''user'' ''Hola'',
             AddMessage 2 3 ''u1'' ''assistant'' ([CHR 0xC2, CHR 0xA1] @ ''Buenas!'')]" "''u1''"]
  by (simp add: timedelta_minutes_def)

subsection \<open>The store's methods one by one\<close>

lemma stored_two_users:
  "stored two_users 1 = [\<lparr>role = ''user'', content = ''Hola'', timestamp = 0\<rparr>]"
  "stored two_users 2 = [\<lparr>role = ''user'', content = ''Adios'', timestamp = 1\<rparr>]"
  "stored two_users 3 = []"
  "expiry_minutes two_users = 1"
  by (simp_all add: two_users_def stored_def)

lemma conversations_two_users:
  "conversations two_users 1 = Some [\<lparr>role = ''user'', content = ''Hola'', timestamp = 0\<rparr>]"
  "conversations two_users 2 = Some [\<lparr>role = ''user'', content = ''Adios'', timestamp = 1\<rparr>]"
  "conversations two_users 3 = None"
  by (simp_all add: two_users_def)

text \<open>
  Claim C2. \<^verbatim>\<open>add_message\<close> is the sweep of the whole store followed by the append: the new
  manager is the swept one with the new turn, stamped with the reading of the clock, at the end
  of the user's list. So the stored list of every user \<^verbatim>\<open>u\<close> afterwards is the old one
  restricted to the turns whose age at the sweep is strictly less than the expiry window, plus
  the new turn when \<^verbatim>\<open>u\<close> is the user written to. A turn \<^verbatim>\<open>m\<close> stamped \<^verbatim>\<open>T\<close>, other than the
  turn being appended, is therefore in no user's list, and in no user's history, once an
  \<^verbatim>\<open>add_message\<close> for any user has swept at a time at or after \<^verbatim>\<open>T\<close> plus the window.
\<close>

theorem add_message_sweeps_then_appends:
  "add_message t_sweep t_stamp cm v r c =
     (let cm1 = clean_expired t_sweep cm
      in setitem cm1 v (stored cm1 v @ [\<lparr>role = r, content = c, timestamp = t_stamp\<rparr>])) \<and>
   stored (add_message t_sweep t_stamp cm v r c) u =
     filter (\<lambda>m. t_sweep - timestamp m < timedelta_minutes (expiry_minutes cm)) (stored cm u)
       @ (if u = v then [\<lparr>role = r, content = c, timestamp = t_stamp\<rparr>] else []) \<and>
   fst (get_history (add_message t_sweep t_stamp cm v r c) u) =
     map strip (stored (add_message t_sweep t_stamp cm v r c) u) \<and>
   (timestamp m + timedelta_minutes (expiry_minutes cm) \<le> t_sweep \<and>
    m \<noteq> \<lparr>role = r, content = c, timestamp = t_stamp\<rparr> \<longrightarrow>
      m \<notin> set (stored (add_message t_sweep t_stamp cm v r c) u))"
proof (intro conjI)
  show "add_message t_sweep t_stamp cm v r c =
     (let cm1 = clean_expired t_sweep cm
      in setitem cm1 v (stored cm1 v @ [\<lparr>role = r, content = c, timestamp = t_stamp\<rparr>]))"
    by (simp add: add_message_def Let_def getitem_def setitem_def stored_def
          split: option.splits)
  have un: "unexpired (expiry_minutes cm) t_sweep =
      (\<lambda>m. t_sweep - timestamp m < timedelta_minutes (expiry_minutes cm))"
    by (simp add: fun_eq_iff unexpired_def)
  show st: "stored (add_message t_sweep t_stamp cm v r c) u =
     filter (\<lambda>m. t_sweep - timestamp m < timedelta_minutes (expiry_minutes cm)) (stored cm u)
       @ (if u = v then [\<lparr>role = r, content = c, timestamp = t_stamp\<rparr>] else [])"
    by (simp add: stored_add_message un)
  show "fst (get_history (add_message t_sweep t_stamp cm v r c) u) =
     map strip (stored (add_message t_sweep t_stamp cm v r c) u)"
    by (rule fst_get_history)
  show "timestamp m + timedelta_minutes (expiry_minutes cm) \<le> t_sweep \<and>
    m \<noteq> \<lparr>role = r, content = c, timestamp = t_stamp\<rparr> \<longrightarrow>
      m \<notin> set (stored (add_message t_sweep t_stamp cm v r c) u)"
    by (auto simp: st)
qed

text \<open>
  The scenario of the specification: a window of one minute, a turn of user 1 stamped at 0, and
  an \<^verbatim>\<open>add_message\<close> for user 2 that sweeps 61 seconds later.
\<close>

theorem add_message_sweeps_then_appends_witness:
  "\<lparr>role = ''user'', content = ''Hola'', timestamp = 0\<rparr> \<in> set (stored two_users 1) \<and>
   \<lparr>role = ''user'', content = ''Hola'', timestamp = 0\<rparr>
     \<notin> set (stored (add_message 61000000 61000001 two_users 2 ''user'' ''Que tal'') 1) \<and>
   fst (get_history (add_message 61000000 61000001 two_users 2 ''user'' ''Que tal'') 1) = []"
proof -
  note t = add_message_sweeps_then_appends
    [of 61000000 61000001 two_users 2 "''user''" "''Que tal''" 1
        "\<lparr>role = ''user'', content = ''Hola'', timestamp = 0\<rparr>"]
  have gone: "stored (add_message 61000000 61000001 two_users 2 ''user'' ''Que tal'') 1 = []"
    using t [THEN conjunct2, THEN conjunct1]
    by (simp add: stored_two_users timedelta_minutes_def)
  show ?thesis
    using t [THEN conjunct2, THEN conjunct2] by (simp add: gone stored_two_users)
qed

text \<open>
  Claim C8. The result of \<^verbatim>\<open>_clean_expired\<close> is a function of the reading of the clock and of
  the manager before, and of nothing else: that is how \<^verbatim>\<open>clean_expired\<close> is typed. A second
  sweep at the same reading of the clock leaves the manager as the first sweep made it.
\<close>

theorem clean_expired_idempotent:
  "clean_expired now (clean_expired now cm) = clean_expired now cm"
  by (simp add: clean_expired_def fun_eq_iff option.map_comp comp_def)

theorem clean_expired_idempotent_witness:
  "clean_expired 61000000 (clean_expired 61000000 two_users) = clean_expired 61000000 two_users \<and>
   stored (clean_expired 61000000 two_users) 1 = [] \<and>
   stored (clean_expired 61000000 two_users) 2 = []"
  using clean_expired_idempotent [of 61000000 two_users]
  by (simp add: stored_clean_expired stored_two_users unexpired_def timedelta_minutes_def)

text \<open>
  Claim C7. \<^verbatim>\<open>clear_history(u)\<close> removes the entry of \<^verbatim>\<open>u\<close> from the dictionary and changes
  nothing else: the expiry setting stays, the entry of every other user stays, and for an
  unknown \<^verbatim>\<open>u\<close> the manager is returned as it was. The method has no failing branch: the
  \<^verbatim>\<open>del\<close> is guarded by the membership test.
\<close>

theorem clear_history_frame:
  "conversations (clear_history cm u) = (conversations cm)(u := None) \<and>
   expiry_minutes (clear_history cm u) = expiry_minutes cm \<and>
   (conversations cm u = None \<longrightarrow> clear_history cm u = cm) \<and>
   (\<forall>v. v \<noteq> u \<longrightarrow> conversations (clear_history cm u) v = conversations cm v)"
  by (auto simp: clear_history_def fun_eq_iff)

theorem clear_history_frame_witness:
  "clear_history two_users 3 = two_users \<and>
   conversations (clear_history two_users 1) 1 = None \<and>
   conversations (clear_history two_users 1) 2 =
     Some [\<lparr>role = ''user'', content = ''Adios'', timestamp = 1\<rparr>]"
proof -
  have "clear_history two_users 3 = two_users"
    using clear_history_frame [of two_users 3] by (simp add: conversations_two_users)
  moreover have "conversations (clear_history two_users 1) 1 = None"
    using clear_history_frame [of two_users 1] by simp
  moreover have "conversations (clear_history two_users 1) 2 =
      Some [\<lparr>role = ''user'', content = ''Adios'', timestamp = 1\<rparr>]"
    using clear_history_frame [of two_users 1] by (simp add: conversations_two_users)
  ultimately show ?thesis by simp
qed

text \<open>
  Claim C10. \<^verbatim>\<open>get_history\<close> writes: for a user \<^verbatim>\<open>u\<close> that is not a key of the dictionary, the
  call returns the empty list and leaves \<^verbatim>\<open>u\<close> in the dictionary with the value \<^verbatim>\<open>[]\<close>, so the
  set of keys grows by \<^verbatim>\<open>u\<close>. The entries of all other users and the expiry setting are as
  before.
\<close>

theorem get_history_inserts_key:
  "conversations cm u = None \<Longrightarrow>
     fst (get_history cm u) = [] \<and>
     conversations (snd (get_history cm u)) = (conversations cm)(u \<mapsto> []) \<and>
     dom (conversations (snd (get_history cm u))) = insert u (dom (conversations cm)) \<and>
     u \<notin> dom (conversations cm) \<and>
     (\<forall>v. v \<noteq> u \<longrightarrow> conversations (snd (get_history cm u)) v = conversations cm v) \<and>
     expiry_minutes (snd (get_history cm u)) = expiry_minutes cm"
  by (auto simp: get_history_def getitem_def)

theorem get_history_inserts_key_witness:
  "conversations two_users 3 = None \<and>
   fst (get_history two_users 3) = [] \<and>
   conversations (snd (get_history two_users 3)) 3 = Some [] \<and>
   conversations (snd (get_history two_users 3)) 1 =
     Some [\<lparr>role = ''user'', content = ''Hola'', timestamp = 0\<rparr>]"
proof -
  have none: "conversations two_users 3 = None"
    by (simp add: conversations_two_users)
  show ?thesis
    using get_history_inserts_key [OF none] by (simp add: conversations_two_users)
qed

text \<open>
  Claim C9. The sweep keeps the set of keys. A user whose turns have all expired stays a key,
  with the value \<^verbatim>\<open>[]\<close>, whereas \<^verbatim>\<open>clear_history\<close> leaves the user without an entry. No call
  changes a stored turn: after any call of the store, the list of a user is a subsequence of
  the list before (turns removed whole, the others as they were and in their order), or such
  a subsequence followed by the one turn that an \<^verbatim>\<open>add_message\<close> for this user appended.
\<close>

theorem clean_expired_keeps_keys:
  "dom (conversations (clean_expired now cm)) = dom (conversations cm) \<and>
   (conversations cm u = Some msgs \<and> (\<forall>m \<in> set msgs. \<not> unexpired (expiry_minutes cm) now m) \<longrightarrow>
      conversations (clean_expired now cm) u = Some []) \<and>
   conversations (clear_history cm u) u = None \<and>
   (subseq (stored (step cm call) u) (stored cm u) \<or>
    (\<exists>t_sweep t_stamp r c kept.
       call = AddMessage t_sweep t_stamp u r c \<and> subseq kept (stored cm u) \<and>
       stored (step cm call) u = kept @ [\<lparr>role = r, content = c, timestamp = t_stamp\<rparr>]))"
proof (intro conjI)
  show "dom (conversations (clean_expired now cm)) = dom (conversations cm)"
    by (auto simp: conversations_clean_expired dom_def)
  show "conversations cm u = Some msgs \<and> (\<forall>m \<in> set msgs. \<not> unexpired (expiry_minutes cm) now m) \<longrightarrow>
      conversations (clean_expired now cm) u = Some []"
    by (auto simp: conversations_clean_expired filter_empty_conv)
  show "conversations (clear_history cm u) u = None"
    by (auto simp: clear_history_def)
  show "subseq (stored (step cm call) u) (stored cm u) \<or>
    (\<exists>t_sweep t_stamp r c kept.
       call = AddMessage t_sweep t_stamp u r c \<and> subseq kept (stored cm u) \<and>
       stored (step cm call) u = kept @ [\<lparr>role = r, content = c, timestamp = t_stamp\<rparr>])"
  proof (cases call)
    case (AddMessage t_sweep t_stamp v r c)
    show ?thesis
    proof (cases "u = v")
      case True
      have "subseq (filter (unexpired (expiry_minutes cm) t_sweep) (stored cm u)) (stored cm u)"
        by simp
      then show ?thesis
        using AddMessage True by (auto simp: stored_add_message)
    next
      case False
      then show ?thesis
        using AddMessage by (simp add: stored_add_message)
    qed
  qed (simp_all add: snd_get_history stored_snd_getitem stored_clear_history stored_clean_expired)
qed

theorem clean_expired_keeps_keys_witness:
  "conversations (clean_expired 61000000 two_users) 1 = Some [] \<and>
   conversations (clear_history two_users 1) 1 = None \<and>
   dom (conversations (clean_expired 61000000 two_users)) = dom (conversations two_users)"
proof -
  note t = clean_expired_keeps_keys
    [of 61000000 two_users 1 "[\<lparr>role = ''user'', content = ''Hola'', timestamp = 0\<rparr>]"]
  have "conversations (clean_expired 61000000 two_users) 1 = Some []"
    using t by (simp add: conversations_two_users stored_two_users unexpired_def
                  timedelta_minutes_def)
  then show ?thesis
    using t by simp
qed

subsection \<open>The response helper and the text handler\<close>






text \<open>
  When \<^verbatim>\<open>generate_content\<close> raises, the exception is the result and the store holds the same
  history for every user as before: the only change is the one \<^verbatim>\<open>get_history\<close> makes.
\<close>

lemma generate_content_failure_keeps_history:
  assumes "generate_content model (request prompt (fst (get_history cm u)) input_content file)
             = Inl e"
  shows "generate_gemini_response t1 t2 t3 t4 model cm prompt u input_content file =
           (Inl e, snd (get_history cm u))"
    and "fst (get_history
                (snd (generate_gemini_response t1 t2 t3 t4 model cm prompt u input_content file)) v)
           = fst (get_history cm v)"
proof -
  obtain h cm1 where g: "get_history cm u = (h, cm1)"
    by (cases "get_history cm u")
  show eq: "generate_gemini_response t1 t2 t3 t4 model cm prompt u input_content file =
           (Inl e, snd (get_history cm u))"
    using assms by (simp add: generate_gemini_response_def g)
  show "fst (get_history
               (snd (generate_gemini_response t1 t2 t3 t4 model cm prompt u input_content file)) v)
           = fst (get_history cm v)"
    by (simp add: eq fst_get_history snd_get_history stored_snd_getitem)
qed

text \<open>
  When \<^verbatim>\<open>generate_content\<close> returns a response whose \<^verbatim>\<open>text\<close> raises, the exception is the result
  and the first \<^verbatim>\<open>add_message\<close> has already run.
\<close>

lemma response_text_failure_keeps_user_turn:
  assumes "generate_content model (request prompt (fst (get_history cm u)) input_content file)
             = Inr response"
    and "response_text model response = Inl e"
  shows "generate_gemini_response t1 t2 t3 t4 model cm prompt u input_content file =
           (Inl e, add_message t1 t2 (snd (get_history cm u)) u ''user'' input_content)"
proof -
  obtain h cm1 where g: "get_history cm u = (h, cm1)"
    by (cases "get_history cm u")
  show ?thesis
    using assms by (simp add: generate_gemini_response_def g)
qed




text \<open>
  Claim C1. The claim holds of a failure of \<^verbatim>\<open>generate_content\<close>
  (\<^verbatim>\<open>generate_content_failure_keeps_history\<close>), and fails of a generation whose text cannot be
  read. Here the backend returns a response and the accessor \<^verbatim>\<open>text\<close> of the response raises.
  The caller gets the exception, so no text was generated for it; yet the history of user 7,
  empty before the call, holds the user turn afterwards: the first \<^verbatim>\<open>add_message\<close> runs before
  \<^verbatim>\<open>response.text\<close> is evaluated.
\<close>

theorem response_text_failure_records_user_turn:
  "fst (get_history (conversation_manager :: int ConversationManager) 7) = [] \<and>
   fst (generate_gemini_response 10 11 12 13
          \<lparr>generate_content = (\<lambda>p :: unit payload. Inr ()),
           response_text = (\<lambda>r :: unit. Inl (Exception ''blocked''))\<rparr>
          (conversation_manager :: int ConversationManager) ''Responde'' 7 ''Hola'' None)
     = Inl (Exception ''blocked'') \<and>
   fst (get_history
          (snd (generate_gemini_response 10 11 12 13
                  \<lparr>generate_content = (\<lambda>p :: unit payload. Inr ()),
                   response_text = (\<lambda>r :: unit. Inl (Exception ''blocked''))\<rparr>
                  (conversation_manager :: int ConversationManager) ''Responde'' 7 ''Hola'' None))
          7)
     = [\<lparr>role = ''user'', content = ''Hola''\<rparr>]"
proof -
  let ?model = "\<lparr>generate_content = (\<lambda>p :: unit payload. Inr ()),
                 response_text = (\<lambda>r :: unit. Inl (Exception ''blocked''))\<rparr>"
  have run: "generate_gemini_response 10 11 12 13 ?model
               (conversation_manager :: int ConversationManager) ''Responde'' 7 ''Hola'' None =
             (Inl (Exception ''blocked''),
              add_message 10 11 (snd (get_history conversation_manager 7)) 7 ''user'' ''Hola'')"
    by (rule response_text_failure_keeps_user_turn [where response = "()"]) simp_all
  have before: "stored (conversation_manager :: int ConversationManager) 7 = []"
    by (simp add: conversation_manager_def stored_init)
  show ?thesis
    by (simp add: run fst_get_history stored_add_message snd_get_history stored_snd_getitem
          before strip_def)
qed

lemma lower_example: "lower ''Clear HISTORY'' = ''clear history''"
  by code_simp

lemma conversations_clear_history: "conversations (clear_history cm u) u = None"
  by (auto simp: clear_history_def)

text \<open>
  Claim C5. For a text message whose lowered text is \<^verbatim>\<open>clear history\<close>, \<^verbatim>\<open>handle_text\<close> clears the
  sender's history and replies with the fixed acknowledgement, and does nothing else: the
  result does not depend on the backend, on the speech synthesis or on the clock, so no
  response was generated. Afterwards the sender has no entry in the store and
  \<^verbatim>\<open>get_history\<close> returns the empty list for the sender, whatever was stored before.
\<close>

theorem handle_text_clear_history:
  assumes "lower (message_text message) = ''clear history''"
  shows "handle_text t1 t2 t3 t4 model synthesize_speech w message =
           w\<lparr>manager := clear_history (manager w) (from_user_id message),
             outbox := outbox w @ [Reply acknowledgement]\<rparr> \<and>
         conversations (manager (handle_text t1 t2 t3 t4 model synthesize_speech w message))
           (from_user_id message) = None \<and>
         fst (get_history (manager (handle_text t1 t2 t3 t4 model synthesize_speech w message))
                (from_user_id message)) = []"
proof -
  have eq: "handle_text t1 t2 t3 t4 model synthesize_speech w message =
           w\<lparr>manager := clear_history (manager w) (from_user_id message),
             outbox := outbox w @ [Reply acknowledgement]\<rparr>"
    using assms by (simp add: handle_text_def)
  show ?thesis
    by (simp add: eq conversations_clear_history fst_get_history stored_clear_history)
qed

theorem handle_text_clear_history_witness:
  "lower ''Clear HISTORY'' = ''clear history'' \<and>
   fst (get_history (add_message 0 1 (init 30) (7::int) ''user'' ''Hola'') 7) =
     [\<lparr>role = ''user'', content = ''Hola''\<rparr>] \<and>
   handle_text 10 11 12 13
     \<lparr>generate_content = (\<lambda>p :: unit payload. Inr ()),
      response_text = (\<lambda>r :: unit. Inr ''Buenas'')\<rparr>
     (\<lambda>s. Inr ())
     \<lparr>manager = add_message 0 1 (init 30) (7::int) ''user'' ''Hola'', outbox = []\<rparr>
     \<lparr>message_text = ''Clear HISTORY'', from_user_id = 7\<rparr> =
   \<lparr>manager = clear_history (add_message 0 1 (init 30) 7 ''user'' ''Hola'') 7,
    outbox = [Reply acknowledgement :: unit sent]\<rparr> \<and>
   fst (get_history
          (manager
             (handle_text 10 11 12 13
                \<lparr>generate_content = (\<lambda>p :: unit payload. Inr ()),
                 response_text = (\<lambda>r :: unit. Inr ''Buenas'')\<rparr>
                (\<lambda>s. Inr ())
                \<lparr>manager = add_message 0 1 (init 30) (7::int) ''user'' ''Hola'',
                 outbox = [] :: unit sent list\<rparr>
                \<lparr>message_text = ''Clear HISTORY'', from_user_id = 7\<rparr>))
          7) = []"
  using handle_text_clear_history
    [of "\<lparr>message_text = ''Clear HISTORY'', from_user_id = (7::int)\<rparr>" 10 11 12 13
        "\<lparr>generate_content = (\<lambda>p :: unit payload. Inr ()),
          response_text = (\<lambda>r :: unit. Inr ''Buenas'')\<rparr>"
        "\<lambda>s. Inr ()"
        "\<lparr>manager = add_message 0 1 (init 30) (7::int) ''user'' ''Hola'',
          outbox = [] :: unit sent list\<rparr>"]
    lower_example
  by (simp add: fst_get_history stored_add_message stored_init strip_def stored_clear_history)

end
